theory Spec2Isabelle
  imports Main
begin

section \<open>Python values, exceptions and the host\<close>

text \<open>
  The driver \<^verbatim>\<open>RBDDriver2\<close> (\<^verbatim>\<open>cinder/volume/drivers/rbd2.py\<close>) builds and reads
  plain Python dictionaries. A dictionary is an association list in insertion order (its
  keys are distinct); \<open>PyObj\<close> is a reference to an object the driver only hands on
  (the connector, a device handle).
\<close>

datatype pyval =
    PyNone
  | PyBool bool
  | PyStr string
  | PyList "pyval list"
  | PyDict "(string \<times> pyval) list"
  | PyObj nat

text \<open>
  Exceptions are values. \<open>exn\<close> stands for the instances of Python's class
  \<^verbatim>\<open>Exception\<close>: \<open>KeyError\<close> and \<open>TypeError\<close> come from subscripting,
  \<open>DeviceUnavailable\<close> is \<^verbatim>\<open>cinder.exception.DeviceUnavailable\<close> with its keyword
  arguments, and \<open>ExternalError\<close> is any other exception a collaborator raises, named by
  its description.
\<close>

datatype exn =
    KeyError string
  | TypeError
  | DeviceUnavailable pyval pyval string
  | ExternalError string

text \<open>\<^verbatim>\<open>d[k]\<close>: a missing key raises \<^verbatim>\<open>KeyError\<close>; a value that is not a dictionary
  cannot be subscripted by a string and raises \<^verbatim>\<open>TypeError\<close>.\<close>

fun subscript :: "pyval \<Rightarrow> string \<Rightarrow> exn + pyval" where
  "subscript (PyDict kvs) k =
     (case map_of kvs k of None \<Rightarrow> Inl (KeyError k) | Some v \<Rightarrow> Inr v)"
| "subscript v k = Inl TypeError"

text \<open>\<^verbatim>\<open>d[k1][k2]\<close>, evaluated left to right.\<close>

definition subscript2 :: "pyval \<Rightarrow> string \<Rightarrow> string \<Rightarrow> exn + pyval" where
  "subscript2 d k1 k2 = (case subscript d k1 of Inl e \<Rightarrow> Inl e | Inr v \<Rightarrow> subscript v k2)"

text \<open>Truth value of an object, as \<^verbatim>\<open>if v:\<close> and \<^verbatim>\<open>not v\<close> test it.\<close>

fun truthy :: "pyval \<Rightarrow> bool" where
  "truthy PyNone = False"
| "truthy (PyBool b) = b"
| "truthy (PyStr s) = (s \<noteq> [])"
| "truthy (PyList xs) = (xs \<noteq> [])"
| "truthy (PyDict kvs) = (kvs \<noteq> [])"
| "truthy (PyObj h) = True"

text \<open>
  \<^verbatim>\<open>'%s' % v\<close> and \<^verbatim>\<open>str(v)\<close>: a string is taken as it is, \<^verbatim>\<open>None\<close> and the
  booleans print their names. What a list, a dictionary or an object prints depends on the
  interpreter and on the object; it is the parameter \<open>repr\<close>.
\<close>

definition py_str :: "(pyval \<Rightarrow> string) \<Rightarrow> pyval \<Rightarrow> string" where
  "py_str repr v =
     (case v of
        PyStr s \<Rightarrow> s
      | PyNone \<Rightarrow> ''None''
      | PyBool b \<Rightarrow> (if b then ''True'' else ''False'')
      | _ \<Rightarrow> repr v)"

text \<open>Python's \<^verbatim>\<open>None\<close> or a string, as a configuration option or an attribute holds it.\<close>

definition py_opt_str :: "string option \<Rightarrow> pyval" where
  "py_opt_str x = (case x of None \<Rightarrow> PyNone | Some s \<Rightarrow> PyStr s)"

subsection \<open>What the driver does to its surroundings\<close>

text \<open>
  Every call that leaves the driver is recorded, in order: log records, the calls to
  the connector, the commands run through \<^verbatim>\<open>utils.execute\<close> (arguments as passed, and
  \<^verbatim>\<open>run_as_root\<close>) and the call of the inherited \<^verbatim>\<open>_detach_volume\<close>.
\<close>

datatype event =
    LogDebug string pyval
  | LogException string pyval exn
  | BrickGetConnector pyval bool int pyval
  | ConnectVolume nat pyval
  | CheckValidDevice nat pyval bool
  | Execute "pyval list" bool
  | BaseDetachVolume pyval pyval pyval pyval bool bool

text \<open>The host: the trace of calls so far and the symbolic links under the paths the driver
  writes, each with its target.\<close>

record world =
  trace :: "event list"
  links :: "string \<rightharpoonup> string"

text \<open>
  The collaborators, none of them in this file of the driver: the cluster session
  (\<^verbatim>\<open>_get_mon_addrs\<close> of the base driver), \<^verbatim>\<open>utils.brick_get_connector\<close>, the connector's
  methods, \<^verbatim>\<open>secure_file_operations_enabled\<close> and \<^verbatim>\<open>_detach_volume\<close> of the base
  driver, and the faults of process execution (a denied permission, a missing binary).
  Each either returns or raises.
\<close>

record env =
  get_mon_addrs :: "exn + (string list \<times> string list)"
  brick_get_connector :: "pyval \<Rightarrow> bool \<Rightarrow> int \<Rightarrow> pyval \<Rightarrow> exn + nat"
  connect_volume :: "nat \<Rightarrow> pyval \<Rightarrow> exn + pyval"
  check_valid_device :: "nat \<Rightarrow> pyval \<Rightarrow> bool \<Rightarrow> exn + bool"
  secure_file_operations_enabled :: "exn + bool"
  base_detach_volume :: "pyval \<Rightarrow> pyval \<Rightarrow> pyval \<Rightarrow> pyval \<Rightarrow> bool \<Rightarrow> bool \<Rightarrow> exn option"
  exec_fault :: "string list \<Rightarrow> bool \<Rightarrow> exn option"
  py_repr :: "pyval \<Rightarrow> string"

text \<open>The options of \<^verbatim>\<open>self.configuration\<close> the three methods read. \<^verbatim>\<open>rbd_user\<close> and
  \<^verbatim>\<open>rbd_secret_uuid\<close> have no default: unset, they are \<^verbatim>\<open>None\<close>.\<close>

record configuration =
  rbd_pool :: string
  rbd_cluster_name :: string
  rbd_user :: "string option"
  rbd_secret_uuid :: "string option"
  use_multipath_for_image_xfer :: bool
  num_volume_device_scan_tries :: int

record volume =
  volume_name :: string
  volume_id :: string
  encryption_key_id :: "string option"

subsection \<open>Statements that may raise and change the host\<close>

type_synonym 'a action = "world \<Rightarrow> (exn + 'a) \<times> world"

definition return_a :: "'a \<Rightarrow> 'a action" where
  "return_a x w = (Inr x, w)"

definition raise_a :: "exn \<Rightarrow> 'a action" where
  "raise_a e w = (Inl e, w)"

text \<open>An expression that has no effect but may raise.\<close>

definition lift_a :: "exn + 'a \<Rightarrow> 'a action" where
  "lift_a r w = (r, w)"

text \<open>Sequencing: an exception of the first statement ends the method.\<close>

definition bind_a :: "'a action \<Rightarrow> ('a \<Rightarrow> 'b action) \<Rightarrow> 'b action" where
  "bind_a m f w = (case m w of (Inl e, w') \<Rightarrow> (Inl e, w') | (Inr x, w') \<Rightarrow> f x w')"

definition emit :: "event \<Rightarrow> unit action" where
  "emit ev w = (Inr (), w\<lparr>trace := trace w @ [ev]\<rparr>)"

section \<open>The connection descriptor\<close>

text \<open>
  \<^verbatim>\<open>initialize_connection(self, volume, connector)\<close>, lines 100--120. The argument
  \<^verbatim>\<open>connector\<close> is not read. \<^verbatim>\<open>True if x else False\<close> on an attribute that is \<^verbatim>\<open>None\<close>
  or a string is the truth value of \<open>py_opt_str x\<close>.
\<close>

definition initialize_connection :: "env \<Rightarrow> configuration \<Rightarrow> volume \<Rightarrow> pyval action" where
  "initialize_connection env cfg vol =
     bind_a (lift_a (get_mon_addrs env)) (\<lambda>(hosts, ports).
       let data = PyDict
             [(''driver_volume_type'', PyStr ''rbd''),
              (''data'', PyDict
                [(''name'', PyStr (rbd_pool cfg @ ''/'' @ volume_name vol)),
                 (''hosts'', PyList (map PyStr hosts)),
                 (''ports'', PyList (map PyStr ports)),
                 (''cluster_name'', PyStr (rbd_cluster_name cfg)),
                 (''auth_enabled'', PyBool (rbd_user cfg \<noteq> None)),
                 (''auth_username'', py_opt_str (rbd_user cfg)),
                 (''secret_type'', PyStr ''ceph''),
                 (''secret_uuid'', py_opt_str (rbd_secret_uuid cfg)),
                 (''volume_id'', PyStr (volume_id vol)),
                 (''encrypted'', PyBool (truthy (py_opt_str (encryption_key_id vol)))),
                 (''do_local_attach'', PyBool (truthy (py_opt_str (encryption_key_id vol))))])]
       in bind_a (emit (LogDebug ''connection data: %s'' data)) (\<lambda>_. return_a data))"

section \<open>Process execution and the collaborators' calls\<close>

text \<open>
  Modelled from the spec: \<^verbatim>\<open>cinder.utils.execute\<close> and the two host commands it runs
  for this driver are not in the driver's file. The spec names them as the privileged
  host operations "create-or-replace symbolic link (force)" and "remove file (force)":
  \<^verbatim>\<open>ln --symbolic --force TARGET LINK\<close> puts a link to \<open>TARGET\<close> at \<open>LINK\<close>, replacing
  what is there, and \<^verbatim>\<open>rm --force PATH\<close> removes \<open>PATH\<close> and is no error when nothing is
  there. Any other command leaves the links as they are.
\<close>

fun command_effect :: "string list \<Rightarrow> (string \<rightharpoonup> string) \<Rightarrow> (string \<rightharpoonup> string)" where
  "command_effect [c, a1, a2, t, l] ls =
     (if c = ''ln'' \<and> a1 = ''--symbolic'' \<and> a2 = ''--force'' then ls(l \<mapsto> t) else ls)"
| "command_effect [c, a1, p] ls =
     (if c = ''rm'' \<and> a1 = ''--force'' then ls(p := None) else ls)"
| "command_effect argv ls = ls"

text \<open>
  Modelled from the spec: \<^verbatim>\<open>utils.execute(*cmd, run_as_root=...)\<close>. The call is recorded,
  the arguments are turned into strings, and the command either meets a fault of the host
  (which is raised, the links untouched) or has its effect.
\<close>

definition execute :: "env \<Rightarrow> pyval list \<Rightarrow> bool \<Rightarrow> unit action" where
  "execute env cmd run_as_root =
     bind_a (emit (Execute cmd run_as_root)) (\<lambda>_.
       let argv = map (py_str (py_repr env)) cmd in
       case exec_fault env argv run_as_root of
         Some e \<Rightarrow> raise_a e
       | None \<Rightarrow> (\<lambda>w. (Inr (), w\<lparr>links := command_effect argv (links w)\<rparr>)))"

text \<open>\<^verbatim>\<open>utils.brick_get_connector(protocol, use_multipath=..., device_scan_attempts=...,
  conn=conn)\<close>: gives the connector object or raises.\<close>

definition call_brick_get_connector ::
  "env \<Rightarrow> pyval \<Rightarrow> bool \<Rightarrow> int \<Rightarrow> pyval \<Rightarrow> nat action" where
  "call_brick_get_connector env protocol use_multipath device_scan_attempts conn =
     bind_a (emit (BrickGetConnector protocol use_multipath device_scan_attempts conn)) (\<lambda>_.
       lift_a (brick_get_connector env protocol use_multipath device_scan_attempts conn))"

text \<open>\<^verbatim>\<open>connector.connect_volume(data)\<close>.\<close>

definition call_connect_volume :: "env \<Rightarrow> nat \<Rightarrow> pyval \<Rightarrow> pyval action" where
  "call_connect_volume env connector data =
     bind_a (emit (ConnectVolume connector data)) (\<lambda>_.
       lift_a (connect_volume env connector data))"

text \<open>\<^verbatim>\<open>connector.check_valid_device(host_device, root_access)\<close>.\<close>

definition call_check_valid_device :: "env \<Rightarrow> nat \<Rightarrow> pyval \<Rightarrow> bool \<Rightarrow> bool action" where
  "call_check_valid_device env connector host_device root_access =
     bind_a (emit (CheckValidDevice connector host_device root_access)) (\<lambda>_.
       lift_a (check_valid_device env connector host_device root_access))"

text \<open>
  \<^verbatim>\<open>super(RBDDriver2, self)._detach_volume(context, attach_info, volume, properties,
  force, remote)\<close>. The base driver's method is not in the driver's file: it is a
  collaborator that returns or raises, and the links of this driver are none of its
  business.
\<close>

definition super_detach_volume ::
  "env \<Rightarrow> pyval \<Rightarrow> pyval \<Rightarrow> pyval \<Rightarrow> pyval \<Rightarrow> bool \<Rightarrow> bool \<Rightarrow> unit action" where
  "super_detach_volume env context attach_info vol properties force remote =
     bind_a (emit (BaseDetachVolume context attach_info vol properties force remote)) (\<lambda>_.
       case base_detach_volume env context attach_info vol properties force remote of
         Some e \<Rightarrow> raise_a e
       | None \<Rightarrow> return_a ())"

section \<open>Attach\<close>

text \<open>
  Lines 144--151 of \<^verbatim>\<open>_connect_device\<close>: \<^verbatim>\<open>unavailable = True\<close>, then the
  \<^verbatim>\<open>try\<close> block, whose \<^verbatim>\<open>except Exception\<close> logs and goes on. The result is the
  value of \<^verbatim>\<open>unavailable\<close> after the block.
\<close>

definition try_check_valid_device :: "env \<Rightarrow> nat \<Rightarrow> pyval \<Rightarrow> bool action" where
  "try_check_valid_device env connector host_device =
     (case secure_file_operations_enabled env of
        Inl e \<Rightarrow>
          bind_a (emit (LogException ''Could not validate device %s'' host_device e)) (\<lambda>_.
            return_a True)
      | Inr secure \<Rightarrow>
          (let root_access = \<not> secure in
           (\<lambda>w. case call_check_valid_device env connector host_device root_access w of
                  (Inl e, w') \<Rightarrow>
                    bind_a (emit (LogException ''Could not validate device %s'' host_device e))
                      (\<lambda>_. return_a True) w'
                | (Inr valid, w') \<Rightarrow> return_a (\<not> valid) w')))"

text \<open>The message of \<^verbatim>\<open>DeviceUnavailable\<close>, lines 156--160.\<close>

definition unavailable_reason :: "env \<Rightarrow> pyval \<Rightarrow> string" where
  "unavailable_reason env host_device =
     ''Unable to access the backend storage via the path '' @ py_str (py_repr env) host_device @ ''.''"

text \<open>
  \<^verbatim>\<open>_connect_device(self, conn)\<close>, lines 122--161. The two \<^verbatim>\<open>if\<close> statements each
  evaluate \<^verbatim>\<open>conn['data']['encrypted']\<close>. In \<^verbatim>\<open>unavailable and conn['encrypted']\<close> the
  subscript is evaluated only when \<^verbatim>\<open>unavailable\<close> is true.
\<close>

definition connect_device :: "env \<Rightarrow> configuration \<Rightarrow> pyval \<Rightarrow> pyval action" where
  "connect_device env cfg conn =
     (let use_multipath = use_multipath_for_image_xfer cfg;
          device_scan_attempts = num_volume_device_scan_tries cfg in
      bind_a (lift_a (subscript conn ''driver_volume_type'')) (\<lambda>protocol.
      bind_a (call_brick_get_connector env protocol use_multipath device_scan_attempts conn)
        (\<lambda>connector.
      bind_a (lift_a (subscript conn ''data'')) (\<lambda>data.
      bind_a (call_connect_volume env connector data) (\<lambda>device.
      bind_a (lift_a (subscript device ''path'')) (\<lambda>device_path.
      bind_a (lift_a (subscript2 conn ''data'' ''encrypted'')) (\<lambda>encrypted1.
      bind_a
        (if truthy encrypted1 then
           bind_a (lift_a (subscript2 conn ''data'' ''volume_id'')) (\<lambda>vid.
           let symlink_dev = ''/dev/rbd-volume-'' @ py_str (py_repr env) vid in
           bind_a (lift_a (subscript device ''path'')) (\<lambda>target.
           bind_a (execute env
                     [PyStr ''ln'', PyStr ''--symbolic'', PyStr ''--force'', target,
                      PyStr symlink_dev] True) (\<lambda>_.
           return_a (PyDict [(''conn'', conn),
                             (''device'', PyDict [(''path'', PyStr symlink_dev)]),
                             (''connector'', PyObj connector)]))))
         else
           return_a (PyDict [(''conn'', conn), (''device'', device_path),
                             (''connector'', PyObj connector)]))
        (\<lambda>attach_info.
      bind_a (lift_a (subscript2 conn ''data'' ''encrypted'')) (\<lambda>encrypted2.
      bind_a
        (if \<not> truthy encrypted2 then
           bind_a (lift_a (subscript device ''path'')) (\<lambda>host_device.
           bind_a (try_check_valid_device env connector host_device) (\<lambda>unavailable.
           if unavailable then
             bind_a (lift_a (subscript conn ''encrypted'')) (\<lambda>guard.
             if truthy guard then
               raise_a (DeviceUnavailable host_device attach_info
                          (unavailable_reason env host_device))
             else return_a ())
           else return_a ()))
         else return_a ())
        (\<lambda>_.
      return_a attach_info))))))))))"

section \<open>Detach\<close>

text \<open>\<^verbatim>\<open>d[k1][k2][k3]\<close>, evaluated left to right.\<close>

definition subscript3 :: "pyval \<Rightarrow> string \<Rightarrow> string \<Rightarrow> string \<Rightarrow> exn + pyval" where
  "subscript3 d k1 k2 k3 =
     (case subscript2 d k1 k2 of Inl e \<Rightarrow> Inl e | Inr v \<Rightarrow> subscript v k3)"

text \<open>\<^verbatim>\<open>_detach_volume(self, context, attach_info, volume, properties, force=False,
  remote=False)\<close>, lines 163--169.\<close>

definition detach_volume ::
  "env \<Rightarrow> pyval \<Rightarrow> pyval \<Rightarrow> pyval \<Rightarrow> pyval \<Rightarrow> bool \<Rightarrow> bool \<Rightarrow> unit action" where
  "detach_volume env context attach_info vol properties force remote =
     bind_a (super_detach_volume env context attach_info vol properties force remote) (\<lambda>_.
     bind_a (lift_a (subscript3 attach_info ''conn'' ''data'' ''encrypted'')) (\<lambda>encrypted.
     if truthy encrypted then
       bind_a (lift_a (subscript2 attach_info ''device'' ''path'')) (\<lambda>path.
       execute env [PyStr ''rm'', PyStr ''--force'', path] True)
     else return_a ()))"

section \<open>Reading a trace and a result\<close>

text \<open>The commands run through \<^verbatim>\<open>utils.execute\<close>, in order, among the calls of a trace.\<close>

fun commands_of :: "event list \<Rightarrow> (pyval list \<times> bool) list" where
  "commands_of [] = []"
| "commands_of (Execute cmd run_as_root # evs) = (cmd, run_as_root) # commands_of evs"
| "commands_of (ev # evs) = commands_of evs"

text \<open>The calls of \<^verbatim>\<open>connector.check_valid_device\<close>, in order, among the calls of a
  trace.\<close>

fun validations_of :: "event list \<Rightarrow> (nat \<times> pyval \<times> bool) list" where
  "validations_of [] = []"
| "validations_of (CheckValidDevice connector path root_access # evs) =
     (connector, path, root_access) # validations_of evs"
| "validations_of (ev # evs) = validations_of evs"

text \<open>The field \<open>k\<close> of the payload (\<^verbatim>\<open>['data'][k]\<close>) of the descriptor a call returned;
  the exception when the call or the lookup raised.\<close>

definition descriptor_field :: "(exn + pyval) \<times> world \<Rightarrow> string \<Rightarrow> exn + pyval" where
  "descriptor_field r k = (case fst r of Inl e \<Rightarrow> Inl e | Inr d \<Rightarrow> subscript2 d ''data'' k)"

section \<open>Concrete configurations, volumes and hosts\<close>

text \<open>
  The configuration and the two volumes of the specification's scenarios A and B: pool
  \<^verbatim>\<open>rbd\<close>, cluster \<^verbatim>\<open>ceph\<close>, user \<^verbatim>\<open>cinder\<close>, secret \<^verbatim>\<open>abc\<close>; volume
  \<^verbatim>\<open>vol1\<close> has no encryption key, volume \<^verbatim>\<open>vol2\<close> has the key \<^verbatim>\<open>key1\<close>.
\<close>

definition scenario_cfg :: configuration where
  "scenario_cfg =
     \<lparr>rbd_pool = ''rbd'', rbd_cluster_name = ''ceph'', rbd_user = Some ''cinder'',
      rbd_secret_uuid = Some ''abc'', use_multipath_for_image_xfer = False,
      num_volume_device_scan_tries = 3\<rparr>"

text \<open>The same configuration with \<^verbatim>\<open>rbd_user\<close> unset, and with \<^verbatim>\<open>rbd_user =\<close> followed
  by nothing in the configuration file (the empty string).\<close>

definition cfg_no_user :: configuration where
  "cfg_no_user = scenario_cfg\<lparr>rbd_user := None\<rparr>"

definition cfg_empty_user :: configuration where
  "cfg_empty_user = scenario_cfg\<lparr>rbd_user := Some ''''\<rparr>"

definition vol1 :: volume where
  "vol1 = \<lparr>volume_name = ''volume-vol1'', volume_id = ''vol1'', encryption_key_id = None\<rparr>"

definition vol2 :: volume where
  "vol2 = \<lparr>volume_name = ''volume-vol2'', volume_id = ''vol2'', encryption_key_id = Some ''key1''\<rparr>"

text \<open>
  A host on which everything works: one monitor, connector object 7, the device
  \<^verbatim>\<open>/dev/rbd0\<close>, a valid device, no fault of process execution. The other hosts differ
  from it in one collaborator each.
\<close>

definition host_ok :: env where
  "host_ok =
     \<lparr>get_mon_addrs = Inr ([''10.0.0.1''], [''6789'']),
      brick_get_connector = (\<lambda>protocol use_multipath attempts conn. Inr 7),
      connect_volume = (\<lambda>connector data. Inr (PyDict [(''path'', PyStr ''/dev/rbd0'')])),
      check_valid_device = (\<lambda>connector path root_access. Inr True),
      secure_file_operations_enabled = Inr False,
      base_detach_volume = (\<lambda>context attach_info vol properties force remote. None),
      exec_fault = (\<lambda>argv run_as_root. None),
      py_repr = (\<lambda>v. ''<object>'')\<rparr>"

definition host_invalid :: env where
  "host_invalid = host_ok\<lparr>check_valid_device := (\<lambda>connector path root_access. Inr False)\<rparr>"

definition host_check_raises :: env where
  "host_check_raises =
     host_ok\<lparr>check_valid_device :=
       (\<lambda>connector path root_access. Inl (ExternalError ''device busy''))\<rparr>"

definition host_connect_fails :: env where
  "host_connect_fails =
     host_ok\<lparr>connect_volume := (\<lambda>connector data. Inl (ExternalError ''connection refused''))\<rparr>"

definition host_rm_denied :: env where
  "host_rm_denied =
     host_ok\<lparr>exec_fault := (\<lambda>argv run_as_root. Some (ExternalError ''Operation not permitted''))\<rparr>"

definition empty_host :: world where
  "empty_host = \<lparr>trace = [], links = Map.empty\<rparr>"

text \<open>The descriptors \<^verbatim>\<open>initialize_connection\<close> builds for the two volumes, and the first
  of them with a key \<^verbatim>\<open>encrypted\<close> added beside \<^verbatim>\<open>data\<close>.\<close>

definition payload1 :: pyval where
  "payload1 = PyDict
     [(''name'', PyStr ''rbd/volume-vol1''),
      (''hosts'', PyList [PyStr ''10.0.0.1'']),
      (''ports'', PyList [PyStr ''6789'']),
      (''cluster_name'', PyStr ''ceph''),
      (''auth_enabled'', PyBool True),
      (''auth_username'', PyStr ''cinder''),
      (''secret_type'', PyStr ''ceph''),
      (''secret_uuid'', PyStr ''abc''),
      (''volume_id'', PyStr ''vol1''),
      (''encrypted'', PyBool False),
      (''do_local_attach'', PyBool False)]"

definition conn1 :: pyval where
  "conn1 = PyDict [(''driver_volume_type'', PyStr ''rbd''), (''data'', payload1)]"

definition conn1_flagged :: pyval where
  "conn1_flagged = PyDict [(''driver_volume_type'', PyStr ''rbd''), (''data'', payload1),
                           (''encrypted'', PyBool False)]"

definition payload2 :: pyval where
  "payload2 = PyDict
     [(''name'', PyStr ''rbd/volume-vol2''),
      (''hosts'', PyList [PyStr ''10.0.0.1'']),
      (''ports'', PyList [PyStr ''6789'']),
      (''cluster_name'', PyStr ''ceph''),
      (''auth_enabled'', PyBool True),
      (''auth_username'', PyStr ''cinder''),
      (''secret_type'', PyStr ''ceph''),
      (''secret_uuid'', PyStr ''abc''),
      (''volume_id'', PyStr ''vol2''),
      (''encrypted'', PyBool True),
      (''do_local_attach'', PyBool True)]"

definition conn2 :: pyval where
  "conn2 = PyDict [(''driver_volume_type'', PyStr ''rbd''), (''data'', payload2)]"

text \<open>The attach records \<^verbatim>\<open>_connect_device\<close> returns for them on the working host, and
  the host after the attach of \<^verbatim>\<open>vol2\<close> and after its detach.\<close>

definition attach1 :: pyval where
  "attach1 = PyDict [(''conn'', conn1), (''device'', PyStr ''/dev/rbd0''),
                     (''connector'', PyObj 7)]"

definition attach2 :: pyval where
  "attach2 = PyDict [(''conn'', conn2),
                     (''device'', PyDict [(''path'', PyStr ''/dev/rbd-volume-vol2'')]),
                     (''connector'', PyObj 7)]"

definition attached2 :: world where
  "attached2 = snd (connect_device host_ok scenario_cfg conn2 empty_host)"

definition detached2 :: world where
  "detached2 = snd (detach_volume host_ok PyNone attach2 PyNone PyNone False False attached2)"

section \<open>Running the statements\<close>

lemma bind_return [simp]: "bind_a (return_a x) f = f x"
  by (rule ext) (simp add: bind_a_def return_a_def)

lemma bind_raise [simp]: "bind_a (raise_a e) f = raise_a e"
  by (rule ext) (simp add: bind_a_def raise_a_def)

lemma bind_lift_Inr [simp]: "bind_a (lift_a (Inr x)) f = f x"
  by (rule ext) (simp add: bind_a_def lift_a_def)

lemma bind_lift_Inl [simp]: "bind_a (lift_a (Inl e)) f = raise_a e"
  by (rule ext) (simp add: bind_a_def lift_a_def raise_a_def)

lemma bind_emit [simp]: "bind_a (emit ev) f w = f () (w\<lparr>trace := trace w @ [ev]\<rparr>)"
  by (simp add: bind_a_def emit_def)

lemma pair_fst: "fst p = a \<Longrightarrow> p = (a, snd p)"
  by (cases p) simp

lemma subscript2_via:
  "subscript d k1 = Inr v \<Longrightarrow> subscript2 d k1 k2 = subscript v k2"
  by (simp add: subscript2_def)

lemma py_str_PyStr [simp]: "py_str r (PyStr s) = s"
  by (simp add: py_str_def)

lemma commands_of_append: "commands_of (xs @ ys) = commands_of xs @ commands_of ys"
  by (induction xs rule: commands_of.induct) simp_all

lemma validations_of_append:
  "validations_of (xs @ ys) = validations_of xs @ validations_of ys"
  by (induction xs rule: validations_of.induct) simp_all

lemma call_brick_get_connector_run:
  "call_brick_get_connector env p m s c w =
     (brick_get_connector env p m s c, w\<lparr>trace := trace w @ [BrickGetConnector p m s c]\<rparr>)"
  by (simp add: call_brick_get_connector_def lift_a_def)

lemma call_connect_volume_run:
  "call_connect_volume env c d w =
     (connect_volume env c d, w\<lparr>trace := trace w @ [ConnectVolume c d]\<rparr>)"
  by (simp add: call_connect_volume_def lift_a_def)

lemma bind_call_brick [simp]:
  "bind_a (call_brick_get_connector env p m s c) f w =
     (case brick_get_connector env p m s c of
        Inl e \<Rightarrow> (Inl e, w\<lparr>trace := trace w @ [BrickGetConnector p m s c]\<rparr>)
      | Inr x \<Rightarrow> f x (w\<lparr>trace := trace w @ [BrickGetConnector p m s c]\<rparr>))"
  by (simp add: bind_a_def call_brick_get_connector_run split: sum.splits)

lemma bind_call_connect [simp]:
  "bind_a (call_connect_volume env c d) f w =
     (case connect_volume env c d of
        Inl e \<Rightarrow> (Inl e, w\<lparr>trace := trace w @ [ConnectVolume c d]\<rparr>)
      | Inr x \<Rightarrow> f x (w\<lparr>trace := trace w @ [ConnectVolume c d]\<rparr>))"
  by (simp add: bind_a_def call_connect_volume_run split: sum.splits)

lemma execute_run:
  "execute env cmd r w =
     (case exec_fault env (map (py_str (py_repr env)) cmd) r of
        Some e \<Rightarrow> (Inl e, w\<lparr>trace := trace w @ [Execute cmd r]\<rparr>)
      | None \<Rightarrow> (Inr (), w\<lparr>trace := trace w @ [Execute cmd r],
                     links := command_effect (map (py_str (py_repr env)) cmd) (links w)\<rparr>))"
  by (simp add: execute_def raise_a_def Let_def split: option.splits)

lemma bind_execute [simp]:
  "bind_a (execute env cmd r) f w =
     (case exec_fault env (map (py_str (py_repr env)) cmd) r of
        Some e \<Rightarrow> (Inl e, w\<lparr>trace := trace w @ [Execute cmd r]\<rparr>)
      | None \<Rightarrow> f () (w\<lparr>trace := trace w @ [Execute cmd r],
                     links := command_effect (map (py_str (py_repr env)) cmd) (links w)\<rparr>))"
  by (simp add: bind_a_def execute_run split: option.splits)

lemma super_detach_volume_run:
  "super_detach_volume env context attach_info vol properties force remote w =
     (case base_detach_volume env context attach_info vol properties force remote of
        Some e \<Rightarrow> Inl e | None \<Rightarrow> Inr (),
      w\<lparr>trace := trace w @ [BaseDetachVolume context attach_info vol properties force remote]\<rparr>)"
  by (simp add: super_detach_volume_def raise_a_def return_a_def split: option.splits)

lemma try_check_valid_device_run:
  "try_check_valid_device env c h w =
     (case secure_file_operations_enabled env of
        Inl e \<Rightarrow>
          (Inr True, w\<lparr>trace := trace w @ [LogException ''Could not validate device %s'' h e]\<rparr>)
      | Inr secure \<Rightarrow>
          (case check_valid_device env c h (\<not> secure) of
             Inl e \<Rightarrow>
               (Inr True, w\<lparr>trace := trace w @
                  [CheckValidDevice c h (\<not> secure),
                   LogException ''Could not validate device %s'' h e]\<rparr>)
           | Inr valid \<Rightarrow>
               (Inr (\<not> valid), w\<lparr>trace := trace w @ [CheckValidDevice c h (\<not> secure)]\<rparr>)))"
  by (simp add: try_check_valid_device_def call_check_valid_device_def bind_a_def emit_def
        lift_a_def return_a_def Let_def split: sum.splits)

lemma try_check_valid_device_frame:
  assumes "try_check_valid_device env c h w = (r, w')"
  shows "links w' = links w \<and> commands_of (trace w') = commands_of (trace w) \<and>
         (\<exists>u. r = Inr u)"
  using assms
  by (auto simp: try_check_valid_device_run commands_of_append split: sum.splits)

section \<open>What the three methods compute\<close>

text \<open>\<^verbatim>\<open>initialize_connection\<close> returns exactly when the cluster session gives the monitor
  addresses, and then the descriptor has the two keys \<^verbatim>\<open>driver_volume_type\<close> and
  \<^verbatim>\<open>data\<close> and no other.\<close>

lemma initialize_connection_returns:
  "initialize_connection env cfg vol w = (Inr d, w') \<Longrightarrow>
   \<exists>hosts ports. get_mon_addrs env = Inr (hosts, ports) \<and>
     w' = w\<lparr>trace := trace w @ [LogDebug ''connection data: %s'' d]\<rparr> \<and>
     subscript d ''driver_volume_type'' = Inr (PyStr ''rbd'') \<and>
     subscript d ''data'' = Inr (PyDict
                [(''name'', PyStr (rbd_pool cfg @ ''/'' @ volume_name vol)),
                 (''hosts'', PyList (map PyStr hosts)),
                 (''ports'', PyList (map PyStr ports)),
                 (''cluster_name'', PyStr (rbd_cluster_name cfg)),
                 (''auth_enabled'', PyBool (rbd_user cfg \<noteq> None)),
                 (''auth_username'', py_opt_str (rbd_user cfg)),
                 (''secret_type'', PyStr ''ceph''),
                 (''secret_uuid'', py_opt_str (rbd_secret_uuid cfg)),
                 (''volume_id'', PyStr (volume_id vol)),
                 (''encrypted'', PyBool (truthy (py_opt_str (encryption_key_id vol)))),
                 (''do_local_attach'', PyBool (truthy (py_opt_str (encryption_key_id vol))))])"
  by (cases "get_mon_addrs env")
     (auto simp: initialize_connection_def raise_a_def return_a_def Let_def split: prod.splits)

lemma initialize_connection_top_level:
  "initialize_connection env cfg vol w = (Inr d, w') \<Longrightarrow>
   subscript d ''driver_volume_type'' = Inr (PyStr ''rbd'') \<and>
   subscript d ''encrypted'' = Inl (KeyError ''encrypted'')"
  by (cases "get_mon_addrs env")
     (auto simp: initialize_connection_def raise_a_def return_a_def Let_def split: prod.splits)

lemma initialize_connection_total:
  "get_mon_addrs env = Inr (hosts, ports) \<Longrightarrow>
   \<exists>d. initialize_connection env cfg vol w =
         (Inr d, w\<lparr>trace := trace w @ [LogDebug ''connection data: %s'' d]\<rparr>)"
  by (simp add: initialize_connection_def return_a_def Let_def)

text \<open>The runs of \<^verbatim>\<open>_connect_device\<close>: the connector fails; the payload says
  \<^verbatim>\<open>encrypted\<close>; the payload does not.\<close>

lemma connect_device_connect_fails:
  assumes "subscript conn ''driver_volume_type'' = Inr protocol"
    and "brick_get_connector env protocol (use_multipath_for_image_xfer cfg)
           (num_volume_device_scan_tries cfg) conn = Inr connector"
    and "subscript conn ''data'' = Inr data"
    and "connect_volume env connector data = Inl e"
  shows "connect_device env cfg conn w =
     (Inl e, w\<lparr>trace := trace w @
        [BrickGetConnector protocol (use_multipath_for_image_xfer cfg)
           (num_volume_device_scan_tries cfg) conn,
         ConnectVolume connector data]\<rparr>)"
  using assms by (simp add: connect_device_def)

lemma connect_device_encrypted_run:
  assumes "subscript conn ''driver_volume_type'' = Inr protocol"
    and "brick_get_connector env protocol (use_multipath_for_image_xfer cfg)
           (num_volume_device_scan_tries cfg) conn = Inr connector"
    and "subscript conn ''data'' = Inr data"
    and "connect_volume env connector data = Inr device"
    and "subscript device ''path'' = Inr raw"
    and "subscript data ''encrypted'' = Inr enc" and "truthy enc"
    and "subscript data ''volume_id'' = Inr vid"
  shows "connect_device env cfg conn w =
     (case exec_fault env
             [''ln'', ''--symbolic'', ''--force'', py_str (py_repr env) raw,
              ''/dev/rbd-volume-'' @ py_str (py_repr env) vid] True of
        Some e \<Rightarrow>
          (Inl e, w\<lparr>trace := trace w @
             [BrickGetConnector protocol (use_multipath_for_image_xfer cfg)
                (num_volume_device_scan_tries cfg) conn,
              ConnectVolume connector data,
              Execute [PyStr ''ln'', PyStr ''--symbolic'', PyStr ''--force'', raw,
                       PyStr (''/dev/rbd-volume-'' @ py_str (py_repr env) vid)] True]\<rparr>)
      | None \<Rightarrow>
          (Inr (PyDict [(''conn'', conn),
                        (''device'', PyDict [(''path'',
                            PyStr (''/dev/rbd-volume-'' @ py_str (py_repr env) vid))]),
                        (''connector'', PyObj connector)]),
           w\<lparr>trace := trace w @
             [BrickGetConnector protocol (use_multipath_for_image_xfer cfg)
                (num_volume_device_scan_tries cfg) conn,
              ConnectVolume connector data,
              Execute [PyStr ''ln'', PyStr ''--symbolic'', PyStr ''--force'', raw,
                       PyStr (''/dev/rbd-volume-'' @ py_str (py_repr env) vid)] True],
             links := (links w)(''/dev/rbd-volume-'' @ py_str (py_repr env) vid \<mapsto>
                                py_str (py_repr env) raw)\<rparr>))"
  using assms
  by (simp add: connect_device_def subscript2_via bind_a_def lift_a_def return_a_def raise_a_def
        call_brick_get_connector_run call_connect_volume_run execute_run Let_def
        split: option.splits)

lemma connect_device_plaintext_run:
  assumes "subscript conn ''driver_volume_type'' = Inr protocol"
    and "brick_get_connector env protocol (use_multipath_for_image_xfer cfg)
           (num_volume_device_scan_tries cfg) conn = Inr connector"
    and "subscript conn ''data'' = Inr data"
    and "connect_volume env connector data = Inr device"
    and "subscript device ''path'' = Inr raw"
    and "subscript data ''encrypted'' = Inr enc" and "\<not> truthy enc"
  shows "connect_device env cfg conn w =
     (case try_check_valid_device env connector raw
             (w\<lparr>trace := trace w @
                [BrickGetConnector protocol (use_multipath_for_image_xfer cfg)
                   (num_volume_device_scan_tries cfg) conn,
                 ConnectVolume connector data]\<rparr>) of
        (Inl e, w') \<Rightarrow> (Inl e, w')
      | (Inr unavailable, w') \<Rightarrow>
          if unavailable then
            (case subscript conn ''encrypted'' of
               Inl e \<Rightarrow> (Inl e, w')
             | Inr guard \<Rightarrow>
                 if truthy guard then
                   (Inl (DeviceUnavailable raw
                           (PyDict [(''conn'', conn), (''device'', raw),
                                    (''connector'', PyObj connector)])
                           (unavailable_reason env raw)), w')
                 else
                   (Inr (PyDict [(''conn'', conn), (''device'', raw),
                                 (''connector'', PyObj connector)]), w'))
          else
            (Inr (PyDict [(''conn'', conn), (''device'', raw),
                          (''connector'', PyObj connector)]), w'))"
  using assms
  by (simp add: connect_device_def subscript2_via bind_a_def lift_a_def return_a_def raise_a_def
        call_brick_get_connector_run call_connect_volume_run Let_def
        split: sum.splits prod.splits)

text \<open>A run that returns an attach record has passed every lookup and both connector
  calls.\<close>

lemma connect_device_returns_lookups:
  assumes r: "connect_device env cfg conn w = (Inr attach_info, w')"
  shows "\<exists>protocol connector data device raw enc.
           subscript conn ''driver_volume_type'' = Inr protocol \<and>
           brick_get_connector env protocol (use_multipath_for_image_xfer cfg)
             (num_volume_device_scan_tries cfg) conn = Inr connector \<and>
           subscript conn ''data'' = Inr data \<and>
           connect_volume env connector data = Inr device \<and>
           subscript device ''path'' = Inr raw \<and>
           subscript data ''encrypted'' = Inr enc"
proof -
  obtain protocol where p: "subscript conn ''driver_volume_type'' = Inr protocol"
    using r by (cases "subscript conn ''driver_volume_type''")
      (simp_all add: connect_device_def raise_a_def)
  obtain connector where c: "brick_get_connector env protocol (use_multipath_for_image_xfer cfg)
             (num_volume_device_scan_tries cfg) conn = Inr connector"
    using r p by (cases "brick_get_connector env protocol (use_multipath_for_image_xfer cfg)
             (num_volume_device_scan_tries cfg) conn")
      (simp_all add: connect_device_def)
  obtain data where d: "subscript conn ''data'' = Inr data"
    using r p c by (cases "subscript conn ''data''")
      (simp_all add: connect_device_def raise_a_def)
  obtain device where v: "connect_volume env connector data = Inr device"
    using r p c d by (cases "connect_volume env connector data")
      (simp_all add: connect_device_def)
  obtain raw where t: "subscript device ''path'' = Inr raw"
    using r p c d v by (cases "subscript device ''path''")
      (simp_all add: connect_device_def raise_a_def)
  obtain enc where e: "subscript data ''encrypted'' = Inr enc"
    using r p c d v t by (cases "subscript data ''encrypted''")
      (simp_all add: connect_device_def raise_a_def subscript2_via)
  from p c d v t e show ?thesis by blast
qed

lemma connect_device_encrypted_record:
  assumes r: "connect_device env cfg conn w = (Inr attach_info, w')"
    and enc: "subscript2 conn ''data'' ''encrypted'' = Inr enc" "truthy enc"
    and vid: "subscript2 conn ''data'' ''volume_id'' = Inr (PyStr V)"
  shows "\<exists>connector.
           attach_info = PyDict [(''conn'', conn),
                                 (''device'', PyDict [(''path'', PyStr (''/dev/rbd-volume-'' @ V))]),
                                 (''connector'', PyObj connector)]"
proof -
  from connect_device_returns_lookups [OF r] obtain protocol connector data device raw enc'
    where l: "subscript conn ''driver_volume_type'' = Inr protocol"
      "brick_get_connector env protocol (use_multipath_for_image_xfer cfg)
         (num_volume_device_scan_tries cfg) conn = Inr connector"
      "subscript conn ''data'' = Inr data"
      "connect_volume env connector data = Inr device"
      "subscript device ''path'' = Inr raw"
      "subscript data ''encrypted'' = Inr enc'"
    by blast
  from enc vid l have e: "subscript data ''encrypted'' = Inr enc"
    and v: "subscript data ''volume_id'' = Inr (PyStr V)"
    by (simp_all add: subscript2_via)
  from r connect_device_encrypted_run [OF l(1-5) e enc(2) v, of w]
  show ?thesis by (auto split: option.splits)
qed

lemma connect_device_encrypted_no_validation:
  assumes enc: "subscript2 conn ''data'' ''encrypted'' = Inr enc" "truthy enc"
  shows "validations_of (trace (snd (connect_device env cfg conn w))) = validations_of (trace w)"
proof -
  from enc(1) obtain data where d: "subscript conn ''data'' = Inr data"
    and e: "subscript data ''encrypted'' = Inr enc"
    by (auto simp: subscript2_def split: sum.splits)
  show ?thesis
    using d e enc(2)
    by (simp add: connect_device_def subscript2_via bind_a_def lift_a_def return_a_def raise_a_def
        call_brick_get_connector_run call_connect_volume_run execute_run Let_def
        validations_of_append
        split: option.splits sum.splits)
qed

lemma detach_volume_encrypted_run:
  assumes "subscript3 attach_info ''conn'' ''data'' ''encrypted'' = Inr enc" and "truthy enc"
    and "subscript2 attach_info ''device'' ''path'' = Inr path"
    and "base_detach_volume env context attach_info vol properties force remote = None"
  shows "detach_volume env context attach_info vol properties force remote w =
     (case exec_fault env [''rm'', ''--force'', py_str (py_repr env) path] True of
        Some e \<Rightarrow>
          (Inl e, w\<lparr>trace := trace w @
             [BaseDetachVolume context attach_info vol properties force remote,
              Execute [PyStr ''rm'', PyStr ''--force'', path] True]\<rparr>)
      | None \<Rightarrow>
          (Inr (), w\<lparr>trace := trace w @
             [BaseDetachVolume context attach_info vol properties force remote,
              Execute [PyStr ''rm'', PyStr ''--force'', path] True],
             links := (links w)(py_str (py_repr env) path := None)\<rparr>))"
  using assms
  by (simp add: detach_volume_def bind_a_def super_detach_volume_run lift_a_def execute_run
        split: option.splits)

section \<open>The scenarios, evaluated\<close>

lemma initialize_connection_vol1:
  "fst (initialize_connection host_ok scenario_cfg vol1 empty_host) = Inr conn1"
  by (simp add: initialize_connection_def host_ok_def scenario_cfg_def vol1_def conn1_def
        payload1_def py_opt_str_def return_a_def Let_def)

lemma initialize_connection_vol2:
  "fst (initialize_connection host_ok scenario_cfg vol2 empty_host) = Inr conn2"
  by (simp add: initialize_connection_def host_ok_def scenario_cfg_def vol2_def conn2_def
        payload2_def py_opt_str_def return_a_def Let_def)

lemma conn1_lookups:
  "subscript conn1 ''driver_volume_type'' = Inr (PyStr ''rbd'')"
  "subscript conn1 ''data'' = Inr payload1"
  "subscript conn1 ''encrypted'' = Inl (KeyError ''encrypted'')"
  "subscript payload1 ''encrypted'' = Inr (PyBool False)"
  "subscript payload1 ''volume_id'' = Inr (PyStr ''vol1'')"
  by (simp_all add: conn1_def payload1_def)

lemma conn2_lookups:
  "subscript conn2 ''driver_volume_type'' = Inr (PyStr ''rbd'')"
  "subscript conn2 ''data'' = Inr payload2"
  "subscript payload2 ''encrypted'' = Inr (PyBool True)"
  "subscript payload2 ''volume_id'' = Inr (PyStr ''vol2'')"
  by (simp_all add: conn2_def payload2_def)

lemma connect_device_conn1:
  "connect_device host_ok scenario_cfg conn1 w =
     (Inr attach1,
      w\<lparr>trace := trace w @
         [BrickGetConnector (PyStr ''rbd'') False 3 conn1,
          ConnectVolume 7 payload1,
          CheckValidDevice 7 (PyStr ''/dev/rbd0'') True]\<rparr>)"
proof -
  have "brick_get_connector host_ok (PyStr ''rbd'') (use_multipath_for_image_xfer scenario_cfg)
          (num_volume_device_scan_tries scenario_cfg) conn1 = Inr 7"
    and "connect_volume host_ok 7 payload1 = Inr (PyDict [(''path'', PyStr ''/dev/rbd0'')])"
    and "subscript (PyDict [(''path'', PyStr ''/dev/rbd0'')]) ''path'' = Inr (PyStr ''/dev/rbd0'')"
    and "\<not> truthy (PyBool False)"
    by (simp_all add: host_ok_def)
  from connect_device_plaintext_run [OF conn1_lookups(1) this(1) conn1_lookups(2) this(2,3)
      conn1_lookups(4) this(4), of w]
  show ?thesis
    by (simp add: try_check_valid_device_run host_ok_def scenario_cfg_def attach1_def)
qed

lemma connect_device_conn2:
  "connect_device host_ok scenario_cfg conn2 w =
     (Inr attach2,
      w\<lparr>trace := trace w @
         [BrickGetConnector (PyStr ''rbd'') False 3 conn2,
          ConnectVolume 7 payload2,
          Execute [PyStr ''ln'', PyStr ''--symbolic'', PyStr ''--force'', PyStr ''/dev/rbd0'',
                   PyStr ''/dev/rbd-volume-vol2''] True],
        links := (links w)(''/dev/rbd-volume-vol2'' \<mapsto> ''/dev/rbd0'')\<rparr>)"
proof -
  have "brick_get_connector host_ok (PyStr ''rbd'') (use_multipath_for_image_xfer scenario_cfg)
          (num_volume_device_scan_tries scenario_cfg) conn2 = Inr 7"
    and "connect_volume host_ok 7 payload2 = Inr (PyDict [(''path'', PyStr ''/dev/rbd0'')])"
    and "subscript (PyDict [(''path'', PyStr ''/dev/rbd0'')]) ''path'' = Inr (PyStr ''/dev/rbd0'')"
    and "truthy (PyBool True)"
    by (simp_all add: host_ok_def)
  from connect_device_encrypted_run [OF conn2_lookups(1) this(1) conn2_lookups(2) this(2,3)
      conn2_lookups(3) this(4) conn2_lookups(4), of w]
  show ?thesis
    by (simp add: host_ok_def scenario_cfg_def attach2_def)
qed

lemma attached2_eval:
  "attached2 =
     \<lparr>trace =
        [BrickGetConnector (PyStr ''rbd'') False 3 conn2,
         ConnectVolume 7 payload2,
         Execute [PyStr ''ln'', PyStr ''--symbolic'', PyStr ''--force'', PyStr ''/dev/rbd0'',
                  PyStr ''/dev/rbd-volume-vol2''] True],
      links = [''/dev/rbd-volume-vol2'' \<mapsto> ''/dev/rbd0'']\<rparr>"
  by (simp add: attached2_def connect_device_conn2 empty_host_def)

section \<open>The claims\<close>

text \<open>
  C1 (a plaintext attach whose \<^verbatim>\<open>check_valid_device\<close> returns false is classified
  unavailable, raises nothing and returns the attach record). The method does not behave so
  on the descriptors \<^verbatim>\<open>initialize_connection\<close> builds. The device is classified
  unavailable, and then the guard \<^verbatim>\<open>unavailable and conn['encrypted']\<close> of line 153
  subscripts the descriptor itself, where only \<^verbatim>\<open>driver_volume_type\<close> and \<^verbatim>\<open>data\<close>
  are keys: for every plaintext descriptor built by \<^verbatim>\<open>initialize_connection\<close>, if the
  connector gives a device and \<^verbatim>\<open>check_valid_device\<close> returns false, then
  \<^verbatim>\<open>_connect_device\<close> raises \<^verbatim>\<open>KeyError('encrypted')\<close> after the two connector calls
  and the check, and returns no attach record.
\<close>

theorem connect_device_unavailable_plaintext_key_error:
  assumes built: "initialize_connection env0 cfg0 vol w0 = (Inr conn, w1)"
    and plain: "subscript2 conn ''data'' ''encrypted'' = Inr (PyBool False)"
    and data: "subscript conn ''data'' = Inr data"
    and brick: "brick_get_connector env (PyStr ''rbd'') (use_multipath_for_image_xfer cfg)
           (num_volume_device_scan_tries cfg) conn = Inr connector"
    and dev: "connect_volume env connector data = Inr device"
    and path: "subscript device ''path'' = Inr host_device"
    and sec: "secure_file_operations_enabled env = Inr secure"
    and chk: "check_valid_device env connector host_device (\<not> secure) = Inr False"
  shows "connect_device env cfg conn w =
           (Inl (KeyError ''encrypted''),
            w\<lparr>trace := trace w @
              [BrickGetConnector (PyStr ''rbd'') (use_multipath_for_image_xfer cfg)
                 (num_volume_device_scan_tries cfg) conn,
               ConnectVolume connector data,
               CheckValidDevice connector host_device (\<not> secure)]\<rparr>)"
proof -
  from initialize_connection_top_level [OF built]
  have t: "subscript conn ''driver_volume_type'' = Inr (PyStr ''rbd'')"
    and k: "subscript conn ''encrypted'' = Inl (KeyError ''encrypted'')"
    by simp_all
  from plain data have e: "subscript data ''encrypted'' = Inr (PyBool False)"
    by (simp add: subscript2_via)
  have f: "\<not> truthy (PyBool False)"
    by simp
  show ?thesis
    using sec chk k
    by (simp add: connect_device_plaintext_run [OF t brick data dev path e f]
          try_check_valid_device_run)
qed

text \<open>C1 at scenario A: the descriptor of \<^verbatim>\<open>vol1\<close>, on a host whose device check says
  false. The attach ends with \<^verbatim>\<open>KeyError('encrypted')\<close>.\<close>

theorem connect_device_unavailable_plaintext_key_error_witness:
  "initialize_connection host_invalid scenario_cfg vol1 empty_host =
     (Inr conn1, snd (initialize_connection host_invalid scenario_cfg vol1 empty_host)) \<and>
   subscript2 conn1 ''data'' ''encrypted'' = Inr (PyBool False) \<and>
   connect_volume host_invalid 7 payload1 = Inr (PyDict [(''path'', PyStr ''/dev/rbd0'')]) \<and>
   secure_file_operations_enabled host_invalid = Inr False \<and>
   check_valid_device host_invalid 7 (PyStr ''/dev/rbd0'') True = Inr False \<and>
   fst (connect_device host_invalid scenario_cfg conn1 empty_host) = Inl (KeyError ''encrypted'')"
proof -
  have i: "initialize_connection host_invalid scenario_cfg vol1 empty_host =
     (Inr conn1, snd (initialize_connection host_invalid scenario_cfg vol1 empty_host))"
    by (rule pair_fst)
       (simp add: initialize_connection_def host_invalid_def host_ok_def scenario_cfg_def
          vol1_def conn1_def payload1_def py_opt_str_def return_a_def Let_def)
  have e: "subscript2 conn1 ''data'' ''encrypted'' = Inr (PyBool False)"
    by (simp add: subscript2_via conn1_lookups)
  have b: "brick_get_connector host_invalid (PyStr ''rbd'')
          (use_multipath_for_image_xfer scenario_cfg)
          (num_volume_device_scan_tries scenario_cfg) conn1 = Inr 7"
    and c: "connect_volume host_invalid 7 payload1 = Inr (PyDict [(''path'', PyStr ''/dev/rbd0'')])"
    and s: "secure_file_operations_enabled host_invalid = Inr False"
    and k: "check_valid_device host_invalid 7 (PyStr ''/dev/rbd0'') (\<not> False) = Inr False"
    by (simp_all add: host_invalid_def host_ok_def)
  have p: "subscript (PyDict [(''path'', PyStr ''/dev/rbd0'')]) ''path'' = Inr (PyStr ''/dev/rbd0'')"
    by simp
  from connect_device_unavailable_plaintext_key_error [OF i e conn1_lookups(2) b c p s k,
      of empty_host] i e c s k
  show ?thesis by simp
qed

text \<open>
  C2 (encrypted attach): if the payload's \<^verbatim>\<open>encrypted\<close> is true, \<^verbatim>\<open>_connect_device\<close>
  never calls \<^verbatim>\<open>check_valid_device\<close>, whether it returns or raises. If moreover the
  payload's \<^verbatim>\<open>volume_id\<close> is the string \<open>V\<close>, every attach record it returns has
  \<^verbatim>\<open>['device']['path']\<close> equal to \<^verbatim>\<open>/dev/rbd-volume-\<close>\<open>V\<close>, whatever path \<open>raw\<close> the
  connector gave; after the call the link at that path has \<open>raw\<close> (as the command line
  carries it) as its target; and the calls the attach made are exactly
  \<^verbatim>\<open>brick_get_connector\<close>, \<^verbatim>\<open>connect_volume\<close> and the \<^verbatim>\<open>ln\<close> command run as root.
\<close>

theorem connect_device_encrypted_symlink:
  assumes enc: "subscript2 conn ''data'' ''encrypted'' = Inr enc" "truthy enc"
  shows "validations_of (trace (snd (connect_device env cfg conn w))) = validations_of (trace w)
       \<and> (connect_device env cfg conn w = (Inr attach_info, w') \<and>
          subscript2 conn ''data'' ''volume_id'' = Inr (PyStr V) \<longrightarrow>
          (\<exists>protocol connector data device raw.
             subscript conn ''driver_volume_type'' = Inr protocol \<and>
             brick_get_connector env protocol (use_multipath_for_image_xfer cfg)
               (num_volume_device_scan_tries cfg) conn = Inr connector \<and>
             subscript conn ''data'' = Inr data \<and>
             connect_volume env connector data = Inr device \<and>
             subscript device ''path'' = Inr raw \<and>
             subscript2 attach_info ''device'' ''path'' = Inr (PyStr (''/dev/rbd-volume-'' @ V)) \<and>
             links w' (''/dev/rbd-volume-'' @ V) = Some (py_str (py_repr env) raw) \<and>
             trace w' = trace w @
               [BrickGetConnector protocol (use_multipath_for_image_xfer cfg)
                  (num_volume_device_scan_tries cfg) conn,
                ConnectVolume connector data,
                Execute [PyStr ''ln'', PyStr ''--symbolic'', PyStr ''--force'', raw,
                         PyStr (''/dev/rbd-volume-'' @ V)] True]))"
proof (intro conjI impI)
  show "validations_of (trace (snd (connect_device env cfg conn w))) = validations_of (trace w)"
    by (rule connect_device_encrypted_no_validation [OF enc])
next
  assume "connect_device env cfg conn w = (Inr attach_info, w') \<and>
          subscript2 conn ''data'' ''volume_id'' = Inr (PyStr V)"
  then have r: "connect_device env cfg conn w = (Inr attach_info, w')"
    and vid: "subscript2 conn ''data'' ''volume_id'' = Inr (PyStr V)"
    by simp_all
  from connect_device_returns_lookups [OF r] obtain protocol connector data device raw enc'
    where l: "subscript conn ''driver_volume_type'' = Inr protocol"
      "brick_get_connector env protocol (use_multipath_for_image_xfer cfg)
         (num_volume_device_scan_tries cfg) conn = Inr connector"
      "subscript conn ''data'' = Inr data"
      "connect_volume env connector data = Inr device"
      "subscript device ''path'' = Inr raw"
      "subscript data ''encrypted'' = Inr enc'"
    by blast
  from enc vid l have e: "subscript data ''encrypted'' = Inr enc"
    and v: "subscript data ''volume_id'' = Inr (PyStr V)"
    by (simp_all add: subscript2_via)
  from r connect_device_encrypted_run [OF l(1-5) e enc(2) v, of w]
  have "subscript2 attach_info ''device'' ''path'' = Inr (PyStr (''/dev/rbd-volume-'' @ V))"
    and "links w' (''/dev/rbd-volume-'' @ V) = Some (py_str (py_repr env) raw)"
    and "trace w' = trace w @
             [BrickGetConnector protocol (use_multipath_for_image_xfer cfg)
                (num_volume_device_scan_tries cfg) conn,
              ConnectVolume connector data,
              Execute [PyStr ''ln'', PyStr ''--symbolic'', PyStr ''--force'', raw,
                       PyStr (''/dev/rbd-volume-'' @ V)] True]"
    by (auto simp: subscript2_def split: option.splits)
  with l show "\<exists>protocol connector data device raw.
             subscript conn ''driver_volume_type'' = Inr protocol \<and>
             brick_get_connector env protocol (use_multipath_for_image_xfer cfg)
               (num_volume_device_scan_tries cfg) conn = Inr connector \<and>
             subscript conn ''data'' = Inr data \<and>
             connect_volume env connector data = Inr device \<and>
             subscript device ''path'' = Inr raw \<and>
             subscript2 attach_info ''device'' ''path'' = Inr (PyStr (''/dev/rbd-volume-'' @ V)) \<and>
             links w' (''/dev/rbd-volume-'' @ V) = Some (py_str (py_repr env) raw) \<and>
             trace w' = trace w @
               [BrickGetConnector protocol (use_multipath_for_image_xfer cfg)
                  (num_volume_device_scan_tries cfg) conn,
                ConnectVolume connector data,
                Execute [PyStr ''ln'', PyStr ''--symbolic'', PyStr ''--force'', raw,
                         PyStr (''/dev/rbd-volume-'' @ V)] True]"
    by blast
qed

text \<open>C2 at scenario B: the attach of \<^verbatim>\<open>vol2\<close> exposes \<^verbatim>\<open>/dev/rbd-volume-vol2\<close>, a
  link to \<^verbatim>\<open>/dev/rbd0\<close>.\<close>

theorem connect_device_encrypted_symlink_witness:
  "subscript2 conn2 ''data'' ''encrypted'' = Inr (PyBool True) \<and> truthy (PyBool True) \<and>
   connect_device host_ok scenario_cfg conn2 empty_host = (Inr attach2, attached2) \<and>
   subscript2 conn2 ''data'' ''volume_id'' = Inr (PyStr ''vol2'') \<and>
   connect_volume host_ok 7 payload2 = Inr (PyDict [(''path'', PyStr ''/dev/rbd0'')]) \<and>
   subscript2 attach2 ''device'' ''path'' = Inr (PyStr ''/dev/rbd-volume-vol2'') \<and>
   links attached2 ''/dev/rbd-volume-vol2'' = Some ''/dev/rbd0'' \<and>
   trace attached2 =
     [BrickGetConnector (PyStr ''rbd'') False 3 conn2,
      ConnectVolume 7 payload2,
      Execute [PyStr ''ln'', PyStr ''--symbolic'', PyStr ''--force'', PyStr ''/dev/rbd0'',
               PyStr ''/dev/rbd-volume-vol2''] True] \<and>
   validations_of (trace attached2) = []"
proof -
  have r: "connect_device host_ok scenario_cfg conn2 empty_host = (Inr attach2, attached2)"
    by (simp add: attached2_def connect_device_conn2)
  have e: "subscript2 conn2 ''data'' ''encrypted'' = Inr (PyBool True)"
    and t: "truthy (PyBool True)"
    and v: "subscript2 conn2 ''data'' ''volume_id'' = Inr (PyStr ''vol2'')"
    by (simp_all add: subscript2_via conn2_lookups)
  have c: "connect_volume host_ok 7 payload2 = Inr (PyDict [(''path'', PyStr ''/dev/rbd0'')])"
    by (simp add: host_ok_def)
  have p: "subscript2 attach2 ''device'' ''path'' = Inr (PyStr ''/dev/rbd-volume-vol2'')"
    by (simp add: attach2_def subscript2_def)
  have l: "links attached2 ''/dev/rbd-volume-vol2'' = Some ''/dev/rbd0''"
    and q: "trace attached2 =
     [BrickGetConnector (PyStr ''rbd'') False 3 conn2,
      ConnectVolume 7 payload2,
      Execute [PyStr ''ln'', PyStr ''--symbolic'', PyStr ''--force'', PyStr ''/dev/rbd0'',
               PyStr ''/dev/rbd-volume-vol2''] True]"
    by (simp_all add: attached2_eval)
  have z: "validations_of (trace empty_host) = []"
    by (simp add: empty_host_def)
  from connect_device_encrypted_symlink [OF e t, of host_ok scenario_cfg empty_host attach2
      attached2 "''vol2''"] z
  have n: "validations_of (trace attached2) = []"
    by (simp add: attached2_def)
  from r e t v c p l q n show ?thesis
    by simp
qed

text \<open>
  C3 (the flags of the descriptor): in every descriptor \<^verbatim>\<open>initialize_connection\<close> builds,
  the payload fields \<^verbatim>\<open>encrypted\<close> and \<^verbatim>\<open>do_local_attach\<close> are both the boolean
  "the volume has an encryption key reference": true when \<^verbatim>\<open>encryption_key_id\<close> is a
  non-empty string, false when it is \<^verbatim>\<open>None\<close> (or the empty string, which Python's
  truth test takes for no reference). The two fields are therefore always equal.
\<close>

theorem initialize_connection_encrypted_flags:
  assumes "initialize_connection env cfg vol w = (Inr d, w')"
  shows "subscript2 d ''data'' ''encrypted'' =
           Inr (PyBool (encryption_key_id vol \<noteq> None \<and> encryption_key_id vol \<noteq> Some ''''))
       \<and> subscript2 d ''data'' ''do_local_attach'' =
           Inr (PyBool (encryption_key_id vol \<noteq> None \<and> encryption_key_id vol \<noteq> Some ''''))"
proof -
  from initialize_connection_returns [OF assms] obtain hosts ports payload where
    "subscript d ''data'' = Inr payload"
    "subscript payload ''encrypted'' = Inr (PyBool (truthy (py_opt_str (encryption_key_id vol))))"
    "subscript payload ''do_local_attach'' =
       Inr (PyBool (truthy (py_opt_str (encryption_key_id vol))))"
    by auto
  moreover have "truthy (py_opt_str (encryption_key_id vol)) =
      (encryption_key_id vol \<noteq> None \<and> encryption_key_id vol \<noteq> Some '''')"
    by (cases "encryption_key_id vol") (simp_all add: py_opt_str_def)
  ultimately show ?thesis by (simp add: subscript2_via)
qed

text \<open>C3 at scenarios B and A: both flags true for \<^verbatim>\<open>vol2\<close>, both false for
  \<^verbatim>\<open>vol1\<close>.\<close>

theorem initialize_connection_encrypted_flags_witness:
  "fst (initialize_connection host_ok scenario_cfg vol2 empty_host) = Inr conn2 \<and>
   encryption_key_id vol2 = Some ''key1'' \<and>
   subscript2 conn2 ''data'' ''encrypted'' = Inr (PyBool True) \<and>
   subscript2 conn2 ''data'' ''do_local_attach'' = Inr (PyBool True) \<and>
   fst (initialize_connection host_ok scenario_cfg vol1 empty_host) = Inr conn1 \<and>
   encryption_key_id vol1 = None \<and>
   subscript2 conn1 ''data'' ''encrypted'' = Inr (PyBool False) \<and>
   subscript2 conn1 ''data'' ''do_local_attach'' = Inr (PyBool False)"
proof -
  have k: "encryption_key_id vol1 = None" "encryption_key_id vol2 = Some ''key1''"
    by (simp_all add: vol1_def vol2_def)
  from initialize_connection_encrypted_flags [OF pair_fst [OF initialize_connection_vol1]]
    initialize_connection_encrypted_flags [OF pair_fst [OF initialize_connection_vol2]]
    initialize_connection_vol1 initialize_connection_vol2 k
  show ?thesis by simp
qed

text \<open>
  C4 (\<^verbatim>\<open>auth_enabled\<close> is true iff the configured user name is a non-empty string) fails
  for the empty user name: line 110 tests \<^verbatim>\<open>rbd_user is not None\<close>, and the empty
  string is not \<^verbatim>\<open>None\<close>, so \<^verbatim>\<open>auth_enabled\<close> is true although the name is empty.
\<close>

theorem initialize_connection_auth_enabled_counterexample:
  "rbd_user cfg_empty_user = Some '''' \<and>
   descriptor_field (initialize_connection host_ok cfg_empty_user vol1 empty_host)
     ''auth_enabled'' = Inr (PyBool True)"
  by (simp add: descriptor_field_def initialize_connection_def cfg_empty_user_def
        scenario_cfg_def host_ok_def vol1_def subscript2_def py_opt_str_def return_a_def Let_def)

text \<open>
  C4 as the code has it: in every descriptor \<^verbatim>\<open>initialize_connection\<close> builds,
  \<^verbatim>\<open>auth_enabled\<close> is true if and only if \<^verbatim>\<open>rbd_user\<close> is set, that is, is not
  \<^verbatim>\<open>None\<close>; a user name that is set and empty enables authentication too.
\<close>

theorem initialize_connection_auth_enabled:
  assumes "initialize_connection env cfg vol w = (Inr d, w')"
  shows "subscript2 d ''data'' ''auth_enabled'' = Inr (PyBool (rbd_user cfg \<noteq> None))"
proof -
  from initialize_connection_returns [OF assms] obtain payload where
    "subscript d ''data'' = Inr payload"
    "subscript payload ''auth_enabled'' = Inr (PyBool (rbd_user cfg \<noteq> None))"
    by auto
  then show ?thesis by (simp add: subscript2_via)
qed

text \<open>C4 at scenario A: the user \<^verbatim>\<open>cinder\<close> is set and \<^verbatim>\<open>auth_enabled\<close> is true.\<close>

theorem initialize_connection_auth_enabled_witness:
  "rbd_user scenario_cfg = Some ''cinder'' \<and>
   fst (initialize_connection host_ok scenario_cfg vol1 empty_host) = Inr conn1 \<and>
   subscript2 conn1 ''data'' ''auth_enabled'' = Inr (PyBool True)"
proof -
  have k: "rbd_user scenario_cfg = Some ''cinder''"
    by (simp add: scenario_cfg_def)
  from initialize_connection_auth_enabled [OF pair_fst [OF initialize_connection_vol1]]
    initialize_connection_vol1 k
  show ?thesis by simp
qed

text \<open>
  C5 (the field \<^verbatim>\<open>auth_username\<close> is in the payload iff \<^verbatim>\<open>auth_enabled\<close> is true, and
  absent when authentication is disabled) fails with \<^verbatim>\<open>rbd_user\<close> unset: authentication
  is disabled, and the payload still has the key \<^verbatim>\<open>auth_username\<close>, with the value
  \<^verbatim>\<open>None\<close>; looking it up returns \<^verbatim>\<open>None\<close> and raises no \<^verbatim>\<open>KeyError\<close>.
\<close>

theorem initialize_connection_auth_username_counterexample:
  "rbd_user cfg_no_user = None \<and>
   descriptor_field (initialize_connection host_ok cfg_no_user vol1 empty_host)
     ''auth_enabled'' = Inr (PyBool False) \<and>
   descriptor_field (initialize_connection host_ok cfg_no_user vol1 empty_host)
     ''auth_username'' = Inr PyNone \<and>
   descriptor_field (initialize_connection host_ok cfg_no_user vol1 empty_host)
     ''auth_username'' \<noteq> Inl (KeyError ''auth_username'')"
  by (simp add: descriptor_field_def initialize_connection_def cfg_no_user_def
        scenario_cfg_def host_ok_def vol1_def subscript2_def py_opt_str_def return_a_def Let_def)

text \<open>
  C5 as the code has it: every descriptor \<^verbatim>\<open>initialize_connection\<close> builds has both
  keys \<^verbatim>\<open>auth_enabled\<close> and \<^verbatim>\<open>auth_username\<close> in its payload; the value of
  \<^verbatim>\<open>auth_username\<close> is the configured \<^verbatim>\<open>rbd_user\<close>, and it is a string (not
  \<^verbatim>\<open>None\<close>) if and only if \<^verbatim>\<open>auth_enabled\<close> is true.
\<close>

theorem initialize_connection_auth_username:
  assumes "initialize_connection env cfg vol w = (Inr d, w')"
  shows "\<exists>enabled username.
           subscript2 d ''data'' ''auth_enabled'' = Inr (PyBool enabled) \<and>
           subscript2 d ''data'' ''auth_username'' = Inr username \<and>
           username = py_opt_str (rbd_user cfg) \<and>
           (enabled \<longleftrightarrow> username \<noteq> PyNone) \<and>
           (enabled \<longleftrightarrow> (\<exists>s. username = PyStr s))"
proof -
  from initialize_connection_returns [OF assms] obtain payload where
    "subscript d ''data'' = Inr payload"
    "subscript payload ''auth_enabled'' = Inr (PyBool (rbd_user cfg \<noteq> None))"
    "subscript payload ''auth_username'' = Inr (py_opt_str (rbd_user cfg))"
    by auto
  moreover have "(rbd_user cfg \<noteq> None) \<longleftrightarrow> py_opt_str (rbd_user cfg) \<noteq> PyNone"
    and "(rbd_user cfg \<noteq> None) \<longleftrightarrow> (\<exists>s. py_opt_str (rbd_user cfg) = PyStr s)"
    by (cases "rbd_user cfg"; simp add: py_opt_str_def)+
  ultimately show ?thesis by (simp add: subscript2_via)
qed

text \<open>C5 at scenario A: authentication is enabled and \<^verbatim>\<open>auth_username\<close> is
  \<^verbatim>\<open>cinder\<close>.\<close>

theorem initialize_connection_auth_username_witness:
  "rbd_user scenario_cfg = Some ''cinder'' \<and>
   fst (initialize_connection host_ok scenario_cfg vol1 empty_host) = Inr conn1 \<and>
   subscript2 conn1 ''data'' ''auth_enabled'' = Inr (PyBool True) \<and>
   subscript2 conn1 ''data'' ''auth_username'' = Inr (PyStr ''cinder'')"
proof -
  have k: "py_opt_str (rbd_user scenario_cfg) = PyStr ''cinder''"
    "rbd_user scenario_cfg = Some ''cinder''"
    by (simp_all add: scenario_cfg_def py_opt_str_def)
  from initialize_connection_auth_username [OF pair_fst [OF initialize_connection_vol1]]
    initialize_connection_vol1 k
  show ?thesis by auto
qed

text \<open>
  C6 (plaintext attach): if the payload's \<^verbatim>\<open>encrypted\<close> is false, every attach record
  \<^verbatim>\<open>_connect_device\<close> returns has under \<^verbatim>\<open>device\<close> exactly the \<^verbatim>\<open>path\<close> of the device
  \<^verbatim>\<open>connect_volume\<close> returned; the attach ran no command, and the links of the host are
  what they were.
\<close>

theorem connect_device_plaintext_raw_path:
  assumes r: "connect_device env cfg conn w = (Inr attach_info, w')"
    and enc: "subscript2 conn ''data'' ''encrypted'' = Inr enc" "\<not> truthy enc"
  shows "\<exists>protocol connector data device raw.
           subscript conn ''driver_volume_type'' = Inr protocol \<and>
           brick_get_connector env protocol (use_multipath_for_image_xfer cfg)
             (num_volume_device_scan_tries cfg) conn = Inr connector \<and>
           subscript conn ''data'' = Inr data \<and>
           connect_volume env connector data = Inr device \<and>
           subscript device ''path'' = Inr raw \<and>
           subscript attach_info ''device'' = Inr raw \<and>
           commands_of (trace w') = commands_of (trace w) \<and>
           links w' = links w"
proof -
  from connect_device_returns_lookups [OF r] obtain protocol connector data device raw enc'
    where l: "subscript conn ''driver_volume_type'' = Inr protocol"
      "brick_get_connector env protocol (use_multipath_for_image_xfer cfg)
         (num_volume_device_scan_tries cfg) conn = Inr connector"
      "subscript conn ''data'' = Inr data"
      "connect_volume env connector data = Inr device"
      "subscript device ''path'' = Inr raw"
      "subscript data ''encrypted'' = Inr enc'"
    by blast
  from enc l have e: "subscript data ''encrypted'' = Inr enc"
    by (simp add: subscript2_via)
  let ?w1 = "w\<lparr>trace := trace w @
                [BrickGetConnector protocol (use_multipath_for_image_xfer cfg)
                   (num_volume_device_scan_tries cfg) conn,
                 ConnectVolume connector data]\<rparr>"
  obtain u w2 where t: "try_check_valid_device env connector raw ?w1 = (u, w2)"
    by (cases "try_check_valid_device env connector raw ?w1")
  from try_check_valid_device_frame [OF t]
  have f: "links w2 = links w" "commands_of (trace w2) = commands_of (trace w)"
    by (simp_all add: commands_of_append)
  from r connect_device_plaintext_run [OF l(1-5) e enc(2), of w] t
  have "w' = w2" and "subscript attach_info ''device'' = Inr raw"
    by (auto split: sum.splits if_splits)
  with f l show ?thesis by blast
qed

text \<open>C6 at scenario A: the attach of \<^verbatim>\<open>vol1\<close> exposes \<^verbatim>\<open>/dev/rbd0\<close> itself.\<close>

theorem connect_device_plaintext_raw_path_witness:
  "connect_device host_ok scenario_cfg conn1 empty_host =
     (Inr attach1, snd (connect_device host_ok scenario_cfg conn1 empty_host)) \<and>
   subscript2 conn1 ''data'' ''encrypted'' = Inr (PyBool False) \<and> \<not> truthy (PyBool False) \<and>
   connect_volume host_ok 7 payload1 = Inr (PyDict [(''path'', PyStr ''/dev/rbd0'')]) \<and>
   subscript attach1 ''device'' = Inr (PyStr ''/dev/rbd0'') \<and>
   commands_of (trace (snd (connect_device host_ok scenario_cfg conn1 empty_host))) = [] \<and>
   links (snd (connect_device host_ok scenario_cfg conn1 empty_host)) = Map.empty"
proof -
  have r: "connect_device host_ok scenario_cfg conn1 empty_host =
     (Inr attach1, snd (connect_device host_ok scenario_cfg conn1 empty_host))"
    by (simp add: connect_device_conn1)
  have e: "subscript2 conn1 ''data'' ''encrypted'' = Inr (PyBool False)"
    and t: "\<not> truthy (PyBool False)"
    by (simp_all add: subscript2_via conn1_lookups)
  have c: "connect_volume host_ok 7 payload1 = Inr (PyDict [(''path'', PyStr ''/dev/rbd0'')])"
    by (simp add: host_ok_def)
  have p: "subscript attach1 ''device'' = Inr (PyStr ''/dev/rbd0'')"
    by (simp add: attach1_def)
  have l: "commands_of (trace (snd (connect_device host_ok scenario_cfg conn1 empty_host))) = []"
    "links (snd (connect_device host_ok scenario_cfg conn1 empty_host)) = Map.empty"
    by (simp_all add: connect_device_conn1 empty_host_def)
  from connect_device_plaintext_raw_path [OF r e t] r e t c p l show ?thesis
    by simp
qed

text \<open>
  C7 (plaintext attach, \<^verbatim>\<open>check_valid_device\<close> raises \<open>e\<close>): the \<^verbatim>\<open>try\<close> block ends
  normally with \<^verbatim>\<open>unavailable\<close> true and \<open>e\<close> logged by \<^verbatim>\<open>LOG.exception\<close>; the attach
  goes on to the guard of line 153, and what it returns or raises is decided by the
  descriptor alone, not by \<open>e\<close>: it is the outcome of the same attach on a host whose
  check returns false. (That outcome is \<^verbatim>\<open>KeyError('encrypted')\<close> when the descriptor has
  no key \<^verbatim>\<open>encrypted\<close> beside \<^verbatim>\<open>data\<close>, see C1; it is an exception of the guard, raised
  after \<open>e\<close> was caught.)
\<close>

theorem connect_device_check_raises:
  assumes l: "subscript conn ''driver_volume_type'' = Inr protocol"
      "brick_get_connector env protocol (use_multipath_for_image_xfer cfg)
         (num_volume_device_scan_tries cfg) conn = Inr connector"
      "subscript conn ''data'' = Inr data"
      "connect_volume env connector data = Inr device"
      "subscript device ''path'' = Inr host_device"
    and enc: "subscript data ''encrypted'' = Inr enc" "\<not> truthy enc"
    and sec: "secure_file_operations_enabled env = Inr secure"
    and chk: "check_valid_device env connector host_device (\<not> secure) = Inl e"
  shows "try_check_valid_device env connector host_device w0 =
           (Inr True, w0\<lparr>trace := trace w0 @
              [CheckValidDevice connector host_device (\<not> secure),
               LogException ''Could not validate device %s'' host_device e]\<rparr>)
       \<and> connect_device env cfg conn w =
           (case subscript conn ''encrypted'' of
              Inl k \<Rightarrow> Inl k
            | Inr guard \<Rightarrow>
                if truthy guard then
                  Inl (DeviceUnavailable host_device
                         (PyDict [(''conn'', conn), (''device'', host_device),
                                  (''connector'', PyObj connector)])
                         (unavailable_reason env host_device))
                else Inr (PyDict [(''conn'', conn), (''device'', host_device),
                                  (''connector'', PyObj connector)]),
            w\<lparr>trace := trace w @
              [BrickGetConnector protocol (use_multipath_for_image_xfer cfg)
                 (num_volume_device_scan_tries cfg) conn,
               ConnectVolume connector data,
               CheckValidDevice connector host_device (\<not> secure),
               LogException ''Could not validate device %s'' host_device e]\<rparr>)
       \<and> fst (connect_device env cfg conn w) =
           fst (connect_device (env\<lparr>check_valid_device := \<lambda>c p r. Inr False\<rparr>) cfg conn w)"
proof -
  let ?env = "env\<lparr>check_valid_device := \<lambda>c p r. Inr False\<rparr>"
  have t: "try_check_valid_device env connector host_device w0 =
           (Inr True, w0\<lparr>trace := trace w0 @
              [CheckValidDevice connector host_device (\<not> secure),
               LogException ''Could not validate device %s'' host_device e]\<rparr>)" for w0
    using sec chk by (simp add: try_check_valid_device_run)
  have c: "connect_device env cfg conn w =
           (case subscript conn ''encrypted'' of
              Inl k \<Rightarrow> Inl k
            | Inr guard \<Rightarrow>
                if truthy guard then
                  Inl (DeviceUnavailable host_device
                         (PyDict [(''conn'', conn), (''device'', host_device),
                                  (''connector'', PyObj connector)])
                         (unavailable_reason env host_device))
                else Inr (PyDict [(''conn'', conn), (''device'', host_device),
                                  (''connector'', PyObj connector)]),
            w\<lparr>trace := trace w @
              [BrickGetConnector protocol (use_multipath_for_image_xfer cfg)
                 (num_volume_device_scan_tries cfg) conn,
               ConnectVolume connector data,
               CheckValidDevice connector host_device (\<not> secure),
               LogException ''Could not validate device %s'' host_device e]\<rparr>)"
    by (simp add: connect_device_plaintext_run [OF l enc] t split: sum.splits)
  have l': "brick_get_connector ?env protocol (use_multipath_for_image_xfer cfg)
         (num_volume_device_scan_tries cfg) conn = Inr connector"
      "connect_volume ?env connector data = Inr device"
    using l by simp_all
  have "fst (connect_device ?env cfg conn w) =
          (case subscript conn ''encrypted'' of
              Inl k \<Rightarrow> Inl k
            | Inr guard \<Rightarrow>
                if truthy guard then
                  Inl (DeviceUnavailable host_device
                         (PyDict [(''conn'', conn), (''device'', host_device),
                                  (''connector'', PyObj connector)])
                         (unavailable_reason env host_device))
                else Inr (PyDict [(''conn'', conn), (''device'', host_device),
                                  (''connector'', PyObj connector)]))"
    using sec
    by (simp add: connect_device_plaintext_run [OF l(1) l'(1) l(3) l'(2) l(5) enc]
          try_check_valid_device_run unavailable_reason_def split: sum.splits)
  with c t show ?thesis by simp
qed

text \<open>C7 at scenario A, the check raising "device busy": the exception is logged; the
  attach of the built descriptor ends with the guard's \<^verbatim>\<open>KeyError\<close>, and the attach of
  the descriptor that carries \<^verbatim>\<open>encrypted: False\<close> beside \<^verbatim>\<open>data\<close> returns its
  record.\<close>

theorem connect_device_check_raises_witness:
  "subscript2 conn1 ''data'' ''encrypted'' = Inr (PyBool False) \<and> \<not> truthy (PyBool False) \<and>
   secure_file_operations_enabled host_check_raises = Inr False \<and>
   check_valid_device host_check_raises 7 (PyStr ''/dev/rbd0'') True =
     Inl (ExternalError ''device busy'') \<and>
   connect_device host_check_raises scenario_cfg conn1 empty_host =
     (Inl (KeyError ''encrypted''),
      empty_host\<lparr>trace := trace empty_host @
        [BrickGetConnector (PyStr ''rbd'') (use_multipath_for_image_xfer scenario_cfg)
           (num_volume_device_scan_tries scenario_cfg) conn1,
         ConnectVolume 7 payload1,
         CheckValidDevice 7 (PyStr ''/dev/rbd0'') True,
         LogException ''Could not validate device %s'' (PyStr ''/dev/rbd0'')
           (ExternalError ''device busy'')]\<rparr>) \<and>
   fst (connect_device host_check_raises scenario_cfg conn1_flagged empty_host) =
     Inr (PyDict [(''conn'', conn1_flagged), (''device'', PyStr ''/dev/rbd0''),
                  (''connector'', PyObj 7)])"
proof -
  have b: "brick_get_connector host_check_raises (PyStr ''rbd'')
     (use_multipath_for_image_xfer scenario_cfg) (num_volume_device_scan_tries scenario_cfg)
     conn = Inr 7"
    and c: "connect_volume host_check_raises 7 payload1 =
              Inr (PyDict [(''path'', PyStr ''/dev/rbd0'')])"
    and s: "secure_file_operations_enabled host_check_raises = Inr False"
    and k: "check_valid_device host_check_raises 7 (PyStr ''/dev/rbd0'') (\<not> False) =
     Inl (ExternalError ''device busy'')" for conn
    by (simp_all add: host_check_raises_def host_ok_def)
  have p: "subscript (PyDict [(''path'', PyStr ''/dev/rbd0'')]) ''path'' = Inr (PyStr ''/dev/rbd0'')"
    and t: "\<not> truthy (PyBool False)"
    by simp_all
  have f: "subscript conn1_flagged ''driver_volume_type'' = Inr (PyStr ''rbd'')"
    "subscript conn1_flagged ''data'' = Inr payload1"
    "subscript conn1_flagged ''encrypted'' = Inr (PyBool False)"
    by (simp_all add: conn1_flagged_def)
  have e: "subscript2 conn1 ''data'' ''encrypted'' = Inr (PyBool False)"
    by (simp add: subscript2_via conn1_lookups)
  from connect_device_check_raises [OF conn1_lookups(1) b conn1_lookups(2) c p conn1_lookups(4)
      t s k, of empty_host empty_host]
    connect_device_check_raises [OF f(1) b f(2) c p conn1_lookups(4) t s k,
      of empty_host empty_host]
    e t s k
  show ?thesis by (simp add: conn1_lookups f)
qed

text \<open>
  C8 (detach of an encrypted volume's attach record): for the record an attach of the
  encrypted volume \<open>V\<close> returned, once the inherited detach has returned,
  \<^verbatim>\<open>_detach_volume\<close> runs \<^verbatim>\<open>rm --force /dev/rbd-volume-\<close>\<open>V\<close> as root. On any host, with or
  without the link, this returns with the link gone unless process execution meets a
  fault, and a fault is raised to the caller. So a second detach on the same record, the
  link already removed, returns as the first did.
\<close>

theorem detach_volume_encrypted_removes_symlink:
  assumes att: "connect_device env0 cfg conn w0 = (Inr attach_info, w1)"
    and enc: "subscript2 conn ''data'' ''encrypted'' = Inr enc" "truthy enc"
    and vid: "subscript2 conn ''data'' ''volume_id'' = Inr (PyStr V)"
    and base: "base_detach_volume env context attach_info vol properties force remote = None"
  shows "detach_volume env context attach_info vol properties force remote w =
     (case exec_fault env [''rm'', ''--force'', ''/dev/rbd-volume-'' @ V] True of
        Some e \<Rightarrow>
          (Inl e, w\<lparr>trace := trace w @
             [BaseDetachVolume context attach_info vol properties force remote,
              Execute [PyStr ''rm'', PyStr ''--force'', PyStr (''/dev/rbd-volume-'' @ V)]
                True]\<rparr>)
      | None \<Rightarrow>
          (Inr (), w\<lparr>trace := trace w @
             [BaseDetachVolume context attach_info vol properties force remote,
              Execute [PyStr ''rm'', PyStr ''--force'', PyStr (''/dev/rbd-volume-'' @ V)]
                True],
             links := (links w)(''/dev/rbd-volume-'' @ V := None)\<rparr>))
     \<and> (exec_fault env [''rm'', ''--force'', ''/dev/rbd-volume-'' @ V] True = None \<longrightarrow>
          (\<exists>w2 w3.
             detach_volume env context attach_info vol properties force remote w = (Inr (), w2) \<and>
             links w2 (''/dev/rbd-volume-'' @ V) = None \<and>
             detach_volume env context attach_info vol properties force remote w2 = (Inr (), w3) \<and>
             links w3 (''/dev/rbd-volume-'' @ V) = None))"
proof -
  from connect_device_encrypted_record [OF att enc vid] obtain connector where
    a: "attach_info = PyDict [(''conn'', conn),
                              (''device'', PyDict [(''path'', PyStr (''/dev/rbd-volume-'' @ V))]),
                              (''connector'', PyObj connector)]"
    by blast
  have e: "subscript3 attach_info ''conn'' ''data'' ''encrypted'' = Inr enc"
    using enc(1) by (simp add: a subscript3_def subscript2_def)
  have p: "subscript2 attach_info ''device'' ''path'' = Inr (PyStr (''/dev/rbd-volume-'' @ V))"
    by (simp add: a subscript2_def)
  note run = detach_volume_encrypted_run [OF e enc(2) p base]
  show ?thesis
    by (simp add: run split: option.splits)
qed

text \<open>C8 at scenario B: attach \<^verbatim>\<open>vol2\<close>, detach (the link is gone), detach again (no
  exception); and on a host where the removal is not permitted the detach raises that
  fault and the link stays.\<close>

theorem detach_volume_encrypted_removes_symlink_witness:
  "connect_device host_ok scenario_cfg conn2 empty_host = (Inr attach2, attached2) \<and>
   subscript2 conn2 ''data'' ''encrypted'' = Inr (PyBool True) \<and> truthy (PyBool True) \<and>
   subscript2 conn2 ''data'' ''volume_id'' = Inr (PyStr ''vol2'') \<and>
   base_detach_volume host_ok PyNone attach2 PyNone PyNone False False = None \<and>
   links attached2 ''/dev/rbd-volume-vol2'' = Some ''/dev/rbd0'' \<and>
   detach_volume host_ok PyNone attach2 PyNone PyNone False False attached2 =
     (Inr (), detached2) \<and>
   links detached2 ''/dev/rbd-volume-vol2'' = None \<and>
   fst (detach_volume host_ok PyNone attach2 PyNone PyNone False False detached2) = Inr () \<and>
   fst (detach_volume host_rm_denied PyNone attach2 PyNone PyNone False False attached2) =
     Inl (ExternalError ''Operation not permitted'') \<and>
   links (snd (detach_volume host_rm_denied PyNone attach2 PyNone PyNone False False attached2))
     ''/dev/rbd-volume-vol2'' = Some ''/dev/rbd0''"
proof -
  have r: "connect_device host_ok scenario_cfg conn2 empty_host = (Inr attach2, attached2)"
    by (simp add: attached2_def connect_device_conn2)
  have e: "subscript2 conn2 ''data'' ''encrypted'' = Inr (PyBool True)"
    and t: "truthy (PyBool True)"
    and v: "subscript2 conn2 ''data'' ''volume_id'' = Inr (PyStr ''vol2'')"
    by (simp_all add: subscript2_via conn2_lookups)
  have b: "base_detach_volume host_ok PyNone attach2 PyNone PyNone False False = None"
    "base_detach_volume host_rm_denied PyNone attach2 PyNone PyNone False False = None"
    by (simp_all add: host_rm_denied_def host_ok_def)
  have x: "exec_fault host_ok [''rm'', ''--force'', ''/dev/rbd-volume-'' @ ''vol2''] True = None"
    "exec_fault host_rm_denied [''rm'', ''--force'', ''/dev/rbd-volume-'' @ ''vol2''] True =
       Some (ExternalError ''Operation not permitted'')"
    by (simp_all add: host_rm_denied_def host_ok_def)
  have l: "links attached2 ''/dev/rbd-volume-vol2'' = Some ''/dev/rbd0''"
    by (simp add: attached2_eval)
  note ok = detach_volume_encrypted_removes_symlink [OF r e t v b(1)]
  note denied = detach_volume_encrypted_removes_symlink [OF r e t v b(2), of attached2]
  have d1: "detach_volume host_ok PyNone attach2 PyNone PyNone False False attached2 =
     (Inr (), detached2)"
    using ok [of attached2] x(1) by (simp add: detached2_def)
  have d2: "links detached2 ''/dev/rbd-volume-vol2'' = None"
    using ok [of attached2] x(1) by (simp add: detached2_def)
  have d3: "fst (detach_volume host_ok PyNone attach2 PyNone PyNone False False detached2) =
     Inr ()"
    using ok [of detached2] x(1) by simp
  have d4: "fst (detach_volume host_rm_denied PyNone attach2 PyNone PyNone False False
                   attached2) = Inl (ExternalError ''Operation not permitted'')"
    "links (snd (detach_volume host_rm_denied PyNone attach2 PyNone PyNone False False
                   attached2)) ''/dev/rbd-volume-vol2'' = Some ''/dev/rbd0''"
    using denied x(2) l by simp_all
  from r e t v b(1) l d1 d2 d3 d4 show ?thesis
    by simp
qed

text \<open>
  C9 (\<^verbatim>\<open>connect_volume\<close> fails with \<open>e\<close>): \<^verbatim>\<open>_connect_device\<close> raises \<open>e\<close> and
  returns no record; it has called \<^verbatim>\<open>connect_volume\<close> once and nothing after it, has
  run no command, and the links of the host are what they were.
\<close>

theorem connect_device_connect_failure:
  assumes "subscript conn ''driver_volume_type'' = Inr protocol"
    and "brick_get_connector env protocol (use_multipath_for_image_xfer cfg)
           (num_volume_device_scan_tries cfg) conn = Inr connector"
    and "subscript conn ''data'' = Inr data"
    and "connect_volume env connector data = Inl e"
  shows "\<exists>w'. connect_device env cfg conn w = (Inl e, w') \<and>
           trace w' = trace w @
             [BrickGetConnector protocol (use_multipath_for_image_xfer cfg)
                (num_volume_device_scan_tries cfg) conn,
              ConnectVolume connector data] \<and>
           commands_of (trace w') = commands_of (trace w) \<and>
           links w' = links w"
  using connect_device_connect_fails [OF assms, of w]
  by (simp add: commands_of_append)

text \<open>C9 at scenario B with a connector that refuses the connection.\<close>

theorem connect_device_connect_failure_witness:
  "subscript conn2 ''driver_volume_type'' = Inr (PyStr ''rbd'') \<and>
   brick_get_connector host_connect_fails (PyStr ''rbd'')
     (use_multipath_for_image_xfer scenario_cfg) (num_volume_device_scan_tries scenario_cfg)
     conn2 = Inr 7 \<and>
   subscript conn2 ''data'' = Inr payload2 \<and>
   connect_volume host_connect_fails 7 payload2 = Inl (ExternalError ''connection refused'') \<and>
   fst (connect_device host_connect_fails scenario_cfg conn2 empty_host) =
     Inl (ExternalError ''connection refused'') \<and>
   commands_of (trace (snd (connect_device host_connect_fails scenario_cfg conn2 empty_host))) =
     [] \<and>
   links (snd (connect_device host_connect_fails scenario_cfg conn2 empty_host)) = Map.empty"
proof -
  have b: "brick_get_connector host_connect_fails (PyStr ''rbd'')
     (use_multipath_for_image_xfer scenario_cfg) (num_volume_device_scan_tries scenario_cfg)
     conn2 = Inr 7"
    and c: "connect_volume host_connect_fails 7 payload2 =
      Inl (ExternalError ''connection refused'')"
    by (simp_all add: host_connect_fails_def host_ok_def)
  have z: "commands_of (trace empty_host) = []" "links empty_host = Map.empty"
    by (simp_all add: empty_host_def)
  from connect_device_connect_failure [OF conn2_lookups(1) b conn2_lookups(2) c, of empty_host]
    conn2_lookups(1,2) b c z
  show ?thesis by auto
qed

text \<open>
  C10 (detach of a plaintext attach record): if the record's payload has \<^verbatim>\<open>encrypted\<close>
  false, \<^verbatim>\<open>_detach_volume\<close> is the inherited detach and nothing more: the same outcome,
  the one call recorded, no command run, the links of the host unchanged.
\<close>

theorem detach_volume_plaintext_only_base:
  assumes "subscript3 attach_info ''conn'' ''data'' ''encrypted'' = Inr enc"
    and "\<not> truthy enc"
  shows "detach_volume env context attach_info vol properties force remote w =
           (case base_detach_volume env context attach_info vol properties force remote of
              Some e \<Rightarrow> Inl e | None \<Rightarrow> Inr (),
            w\<lparr>trace := trace w @
               [BaseDetachVolume context attach_info vol properties force remote]\<rparr>)
       \<and> detach_volume env context attach_info vol properties force remote w =
           super_detach_volume env context attach_info vol properties force remote w
       \<and> commands_of (trace (snd (detach_volume env context attach_info vol properties
                                     force remote w))) = commands_of (trace w)
       \<and> links (snd (detach_volume env context attach_info vol properties force remote w)) =
           links w"
  using assms
  by (simp add: detach_volume_def bind_a_def super_detach_volume_run lift_a_def return_a_def
        commands_of_append split: option.splits)

text \<open>C10 at scenario A: the detach of the record of \<^verbatim>\<open>vol1\<close>.\<close>

theorem detach_volume_plaintext_only_base_witness:
  "subscript3 attach1 ''conn'' ''data'' ''encrypted'' = Inr (PyBool False) \<and>
   \<not> truthy (PyBool False) \<and>
   detach_volume host_ok PyNone attach1 PyNone PyNone False False empty_host =
     (Inr (), empty_host\<lparr>trace := trace empty_host @
                [BaseDetachVolume PyNone attach1 PyNone PyNone False False]\<rparr>) \<and>
   commands_of (trace (snd (detach_volume host_ok PyNone attach1 PyNone PyNone False False
                              empty_host))) = [] \<and>
   links (snd (detach_volume host_ok PyNone attach1 PyNone PyNone False False empty_host)) =
     Map.empty"
proof -
  have e: "subscript3 attach1 ''conn'' ''data'' ''encrypted'' = Inr (PyBool False)"
    by (simp add: attach1_def subscript3_def subscript2_def conn1_lookups)
  have t: "\<not> truthy (PyBool False)"
    by simp
  have b: "base_detach_volume host_ok PyNone attach1 PyNone PyNone False False = None"
    by (simp add: host_ok_def)
  have z: "commands_of (trace empty_host) = []" "links empty_host = Map.empty"
    by (simp_all add: empty_host_def)
  from detach_volume_plaintext_only_base [OF e t, of host_ok PyNone PyNone PyNone False False
      empty_host] e t b z
  show ?thesis by (simp add: commands_of_append)
qed

end
